theory Spec2Isabelle
  imports Complex_Main "HOL-Library.Monad_Syntax"
begin

section \<open>Data model (prisma/schema.prisma)\<close>

text \<open>
  The four collections of the schema. An ObjectId is modelled as a natural number; the
  \<open>@default(auto())\<close> of every \<open>id\<close> field is a counter kept with the collections, and the
  \<open>@default(now())\<close> of every \<open>createdAt\<close> is the time of the request (epoch milliseconds).
  A \<open>Float?\<close> column is a \<open>real option\<close>, \<open>None\<close> being null.
\<close>

type_synonym objectId = nat

record user =
  user_id :: objectId
  user_email :: string
  user_password :: string
  user_createdAt :: int

record device =
  device_id :: objectId
  device_serialNumber :: string
  device_createdAt :: int

record userDevice =
  ud_id :: objectId
  ud_userId :: objectId
  ud_deviceId :: objectId

record deviceEvent =
  ev_id :: objectId
  ev_deviceId :: objectId
  ev_macAddress :: string
  ev_ipAddress :: string
  ev_soilMoisture :: "real option"
  ev_humidity :: "real option"
  ev_temperature :: "real option"
  ev_lighIntensity :: "real option"
  ev_happenedAt :: int
  ev_createdAt :: int

text \<open>The \<open>where\<close> argument on \<open>happenedAt\<close> that the event listing builds.\<close>

record dateFilter =
  gte :: "int option"
  lte :: "int option"

text \<open>Every call made on \<open>databaseClient\<close>, recorded in the order the handlers make them.\<close>

datatype dbop =
    UserFindFirst string
  | UserCreate string
  | DeviceFindFirst string
  | DeviceCreate string
  | DeviceDelete objectId
  | DeviceFindMany "objectId list"
  | UserDeviceCreate objectId objectId
  | UserDeviceDeleteMany objectId objectId
  | UserDeviceFindMany objectId
  | DeviceEventFindMany objectId "dateFilter option"
  | DeviceEventCreate objectId

record store =
  users :: "user list"
  devices :: "device list"
  userDevices :: "userDevice list"
  deviceEvents :: "deviceEvent list"
  next_id :: objectId
  queries :: "dbop list"

definition empty_store :: store where
  "empty_store =
     \<lparr>users = [], devices = [], userDevices = [], deviceEvents = [], next_id = 0, queries = []\<rparr>"

datatype prisma_error = UniqueConstraint | RecordNotFound | RequiredRelationViolation

datatype error = ZodError | JwtError | PrismaError prisma_error

section \<open>Requests and replies\<close>

text \<open>A JSON value of a request body; a query-string value is a \<open>JStr\<close>, or a \<open>JArr\<close> when
  the parameter is repeated. A key that \<open>map_of\<close> does not find is \<open>undefined\<close>.\<close>

datatype jv =
    JNull
  | JBool bool
  | JNum real
  | JStr string
  | JArr "jv list"
  | JObj "(string \<times> jv) list"

record jwt_user =
  ju_id :: objectId
  ju_email :: string

text \<open>What \<open>app.jwt.sign\<close> is given: the payload and the \<open>expiresIn\<close> option.\<close>

record token =
  tok_id :: objectId
  tok_email :: string
  tok_expiresIn :: string

datatype body =
    NoBody
  | Message string
  | TokenBody token
  | DeviceBody device
  | DevicesBody "device list"
  | EventBody deviceEvent
  | EventsBody "deviceEvent list"

text \<open>\<open>Reply status body\<close> is \<open>reply.status(status).send(body)\<close>; \<open>Failed e\<close> is an error
  thrown by the handler, or handed to \<open>reply.send\<close> by \<open>authenticate\<close>, which the framework
  turns into an error response.\<close>

datatype response = Reply nat body | Failed error

datatype route =
    PostAuthRegister
  | PostAuthLogin
  | PostDevices
  | DeleteDevicesId objectId
  | GetDevices
  | GetDevicesEvents "string option"
  | PostDevicesEvents "string option"

record request =
  x_api_key :: "string option"
  authorization :: "string option"
  route :: route
  reqBody :: "jv option"
  reqQuery :: "(string \<times> jv) list"

text \<open>\<open>process.env\<close>: a variable that is not set is \<open>None\<close>.\<close>

record env =
  API_KEY :: "string option"
  JWT_EXPIRES_IN :: "string option"

text \<open>
  The library functions the server imports (zod's string formats, \<open>Date\<close>, bcrypt,
  \<open>@fastify/jwt\<close>'s verification) are parameters of the model. So is the referential
  action of the storage client on a delete: the relations of \<open>UserDevice\<close> and
  \<open>DeviceEvent\<close> to \<open>Device\<close> are required and the schema gives them no \<open>onDelete\<close>, so
  it is the client's default. With \<open>onDelete_restrict\<close> the client refuses to delete a
  device that a link or an event still references; without it the device row goes and the
  referencing rows stay.
\<close>

record lib =
  z_email :: "string \<Rightarrow> bool"
  z_ip :: "string \<Rightarrow> bool"
  z_datetime :: "string \<Rightarrow> bool"
  to_Date :: "string \<Rightarrow> int"
  bcrypt_hash :: "string \<Rightarrow> nat \<Rightarrow> string"
  bcrypt_compare :: "string \<Rightarrow> string \<Rightarrow> bool"
  jwtVerify :: "string option \<Rightarrow> int \<Rightarrow> jwt_user option"
  onDelete_restrict :: bool

section \<open>The storage client\<close>

definition logq :: "dbop \<Rightarrow> store \<Rightarrow> store" where
  "logq q s = s\<lparr>queries := queries s @ [q]\<rparr>"

definition user_findFirst :: "string \<Rightarrow> store \<Rightarrow> user option \<times> store" where
  "user_findFirst email s =
     (find (\<lambda>u. user_email u = email) (users s), logq (UserFindFirst email) s)"

definition user_create :: "int \<Rightarrow> string \<Rightarrow> string \<Rightarrow> store \<Rightarrow> (prisma_error + user) \<times> store" where
  "user_create now email password s =
     (let s1 = logq (UserCreate email) s in
      if email \<in> set (map user_email (users s)) then (Inl UniqueConstraint, s1)
      else
        (let u = \<lparr>user_id = next_id s, user_email = email, user_password = password,
                   user_createdAt = now\<rparr>
         in (Inr u, s1\<lparr>users := users s @ [u], next_id := Suc (next_id s)\<rparr>)))"

definition device_findFirst :: "string \<Rightarrow> store \<Rightarrow> device option \<times> store" where
  "device_findFirst serialNumber s =
     (find (\<lambda>d. device_serialNumber d = serialNumber) (devices s),
      logq (DeviceFindFirst serialNumber) s)"

definition device_create :: "int \<Rightarrow> string \<Rightarrow> store \<Rightarrow> (prisma_error + device) \<times> store" where
  "device_create now serialNumber s =
     (let s1 = logq (DeviceCreate serialNumber) s in
      if serialNumber \<in> set (map device_serialNumber (devices s)) then (Inl UniqueConstraint, s1)
      else
        (let d = \<lparr>device_id = next_id s, device_serialNumber = serialNumber,
                   device_createdAt = now\<rparr>
         in (Inr d, s1\<lparr>devices := devices s @ [d], next_id := Suc (next_id s)\<rparr>)))"

definition referenced :: "objectId \<Rightarrow> store \<Rightarrow> bool" where
  "referenced i s =
     (i \<in> set (map ud_deviceId (userDevices s)) \<or> i \<in> set (map ev_deviceId (deviceEvents s)))"

text \<open>\<open>delete\<close> throws when no record has the id, and when the client restricts the delete
  of a referenced record.\<close>

definition device_delete :: "lib \<Rightarrow> objectId \<Rightarrow> store \<Rightarrow> (prisma_error + device) \<times> store" where
  "device_delete L i s =
     (let s1 = logq (DeviceDelete i) s in
      case find (\<lambda>d. device_id d = i) (devices s) of
        None \<Rightarrow> (Inl RecordNotFound, s1)
      | Some d \<Rightarrow>
          if onDelete_restrict L \<and> referenced i s then (Inl RequiredRelationViolation, s1)
          else (Inr d, s1\<lparr>devices := filter (\<lambda>d. device_id d \<noteq> i) (devices s)\<rparr>))"

definition device_findMany :: "objectId list \<Rightarrow> store \<Rightarrow> device list \<times> store" where
  "device_findMany ids s =
     (filter (\<lambda>d. device_id d \<in> set ids) (devices s), logq (DeviceFindMany ids) s)"

definition userDevice_create :: "objectId \<Rightarrow> objectId \<Rightarrow> store \<Rightarrow> userDevice \<times> store" where
  "userDevice_create userId deviceId s =
     (let l = \<lparr>ud_id = next_id s, ud_userId = userId, ud_deviceId = deviceId\<rparr>
      in (l, (logq (UserDeviceCreate userId deviceId) s)
               \<lparr>userDevices := userDevices s @ [l], next_id := Suc (next_id s)\<rparr>))"

definition userDevice_deleteMany :: "objectId \<Rightarrow> objectId \<Rightarrow> store \<Rightarrow> store" where
  "userDevice_deleteMany userId deviceId s =
     (logq (UserDeviceDeleteMany userId deviceId) s)
       \<lparr>userDevices :=
          filter (\<lambda>l. \<not> (ud_userId l = userId \<and> ud_deviceId l = deviceId)) (userDevices s)\<rparr>"

definition userDevice_findMany :: "objectId \<Rightarrow> store \<Rightarrow> userDevice list \<times> store" where
  "userDevice_findMany userId s =
     (filter (\<lambda>l. ud_userId l = userId) (userDevices s), logq (UserDeviceFindMany userId) s)"

definition matches :: "dateFilter option \<Rightarrow> int \<Rightarrow> bool" where
  "matches f t =
     (case f of
        None \<Rightarrow> True
      | Some w \<Rightarrow>
          (case gte w of None \<Rightarrow> True | Some a \<Rightarrow> a \<le> t) \<and>
          (case lte w of None \<Rightarrow> True | Some b \<Rightarrow> t \<le> b))"

definition deviceEvent_findMany ::
  "objectId \<Rightarrow> dateFilter option \<Rightarrow> store \<Rightarrow> deviceEvent list \<times> store" where
  "deviceEvent_findMany deviceId f s =
     (filter (\<lambda>e. ev_deviceId e = deviceId \<and> matches f (ev_happenedAt e)) (deviceEvents s),
      logq (DeviceEventFindMany deviceId f) s)"

definition deviceEvent_create ::
  "int \<Rightarrow> objectId \<Rightarrow> string \<Rightarrow> string \<Rightarrow> real \<Rightarrow> real \<Rightarrow> real \<Rightarrow> real \<Rightarrow> int \<Rightarrow> store
     \<Rightarrow> deviceEvent \<times> store" where
  "deviceEvent_create now deviceId macAddress ipAddress soilMoisture humidity temperature
       lighIntensity happenedAt s =
     (let e = \<lparr>ev_id = next_id s, ev_deviceId = deviceId, ev_macAddress = macAddress,
                ev_ipAddress = ipAddress, ev_soilMoisture = Some soilMoisture,
                ev_humidity = Some humidity, ev_temperature = Some temperature,
                ev_lighIntensity = Some lighIntensity, ev_happenedAt = happenedAt,
                ev_createdAt = now\<rparr>
      in (e, (logq (DeviceEventCreate deviceId) s)
               \<lparr>deviceEvents := deviceEvents s @ [e], next_id := Suc (next_id s)\<rparr>))"

section \<open>Schemas\<close>

text \<open>\<open>z.string()\<close>, \<open>z.number()\<close> and the formats on a field that may be undefined.\<close>

definition z_string :: "jv option \<Rightarrow> string option" where
  "z_string v = (case v of Some (JStr x) \<Rightarrow> Some x | _ \<Rightarrow> None)"

definition z_number :: "jv option \<Rightarrow> real option" where
  "z_number v = (case v of Some (JNum x) \<Rightarrow> Some x | _ \<Rightarrow> None)"

definition z_format :: "(string \<Rightarrow> bool) \<Rightarrow> jv option \<Rightarrow> string option" where
  "z_format ok v = (case z_string v of Some x \<Rightarrow> if ok x then Some x else None | None \<Rightarrow> None)"

definition z_optional :: "(jv option \<Rightarrow> 'a option) \<Rightarrow> jv option \<Rightarrow> 'a option option" where
  "z_optional p v = (case v of None \<Rightarrow> Some None | Some _ \<Rightarrow> map_option Some (p v))"

definition z_object :: "jv option \<Rightarrow> (string \<times> jv) list option" where
  "z_object b = (case b of Some (JObj kv) \<Rightarrow> Some kv | _ \<Rightarrow> None)"

definition userSchema_parse :: "lib \<Rightarrow> jv option \<Rightarrow> (string \<times> string) option" where
  "userSchema_parse L b =
     do {
       kv \<leftarrow> z_object b;
       email \<leftarrow> z_format (z_email L) (map_of kv ''email'');
       password \<leftarrow> z_string (map_of kv ''password'');
       Some (email, password)
     }"

definition deviceSchema_parse :: "jv option \<Rightarrow> string option" where
  "deviceSchema_parse b = do { kv \<leftarrow> z_object b; z_string (map_of kv ''serialNumber'') }"

definition queryParamsSchema_parse ::
  "lib \<Rightarrow> (string \<times> jv) list \<Rightarrow> (string option \<times> string option) option" where
  "queryParamsSchema_parse L q =
     do {
       startDate \<leftarrow> z_optional (z_format (z_datetime L)) (map_of q ''startDate'');
       endDate \<leftarrow> z_optional (z_format (z_datetime L)) (map_of q ''endDate'');
       Some (startDate, endDate)
     }"

record eventInput =
  in_macAddress :: string
  in_ipAddress :: string
  in_soilMoisture :: real
  in_humidity :: real
  in_temperature :: real
  in_lighIntensity :: real
  in_happenedAt :: string

definition eventSchema_parse :: "lib \<Rightarrow> jv option \<Rightarrow> eventInput option" where
  "eventSchema_parse L b =
     do {
       kv \<leftarrow> z_object b;
       macAddress \<leftarrow> z_string (map_of kv ''macAddress'');
       ipAddress \<leftarrow> z_format (z_ip L) (map_of kv ''ipAddress'');
       soilMoisture \<leftarrow> z_number (map_of kv ''soilMoisture'');
       humidity \<leftarrow> z_number (map_of kv ''humidity'');
       temperature \<leftarrow> z_number (map_of kv ''temperature'');
       lighIntensity \<leftarrow> z_number (map_of kv ''lighIntensity'');
       happenedAt \<leftarrow> z_format (z_datetime L) (map_of kv ''happenedAt'');
       Some \<lparr>in_macAddress = macAddress, in_ipAddress = ipAddress,
             in_soilMoisture = soilMoisture, in_humidity = humidity,
             in_temperature = temperature, in_lighIntensity = lighIntensity,
             in_happenedAt = happenedAt\<rparr>
     }"

text \<open>JavaScript truthiness of a \<open>string | undefined\<close>.\<close>

definition truthy :: "string option \<Rightarrow> bool" where
  "truthy x = (case x of None \<Rightarrow> False | Some v \<Rightarrow> v \<noteq> [])"

section \<open>Hooks (src/server.ts)\<close>

text \<open>The \<open>onRequest\<close> hook added to the application: it runs for every route, before the
  route's own hooks. \<open>True\<close> is \<open>done()\<close>, \<open>False\<close> is the 403 reply.\<close>

definition onRequest :: "env \<Rightarrow> request \<Rightarrow> bool" where
  "onRequest E req = (\<not> (API_KEY E \<noteq> x_api_key req))"

text \<open>The \<open>authenticate\<close> decorator: \<open>request.jwtVerify()\<close> sets \<open>request.user\<close>, and its
  error is sent as the reply.\<close>

definition authenticate :: "lib \<Rightarrow> int \<Rightarrow> request \<Rightarrow> error + jwt_user" where
  "authenticate L now req =
     (case jwtVerify L (authorization req) now of None \<Rightarrow> Inl JwtError | Some u \<Rightarrow> Inr u)"

definition jwt_sign :: "objectId \<Rightarrow> string \<Rightarrow> string \<Rightarrow> token" where
  "jwt_sign i email expiresIn = \<lparr>tok_id = i, tok_email = email, tok_expiresIn = expiresIn\<rparr>"

section \<open>Route handlers (src/server.ts)\<close>

definition post_auth_register ::
  "lib \<Rightarrow> env \<Rightarrow> int \<Rightarrow> jv option \<Rightarrow> store \<Rightarrow> response \<times> store" where
  "post_auth_register L E now b s =
     (case userSchema_parse L b of
        None \<Rightarrow> (Failed ZodError, s)
      | Some (email, password) \<Rightarrow>
          (case user_findFirst email s of
             (Some userAlreadyExists, s1) \<Rightarrow> (Reply 409 (Message ''User already exists''), s1)
           | (None, s1) \<Rightarrow>
               (let passwordHash = bcrypt_hash L password 8 in
                case user_create now email passwordHash s1 of
                  (Inl e, s2) \<Rightarrow> (Failed (PrismaError e), s2)
                | (Inr u, s2) \<Rightarrow>
                    (Reply 201
                       (TokenBody
                          (jwt_sign (user_id u) (user_email u)
                             (if truthy (JWT_EXPIRES_IN E) then the (JWT_EXPIRES_IN E)
                              else ''1d''))),
                     s2))))"

definition post_auth_login :: "lib \<Rightarrow> jv option \<Rightarrow> store \<Rightarrow> response \<times> store" where
  "post_auth_login L b s =
     (case userSchema_parse L b of
        None \<Rightarrow> (Failed ZodError, s)
      | Some (email, password) \<Rightarrow>
          (case user_findFirst email s of
             (None, s1) \<Rightarrow> (Reply 401 (Message ''Email or password incorrect''), s1)
           | (Some userAlreadyExists, s1) \<Rightarrow>
               (let passwordMatch = bcrypt_compare L password (user_password userAlreadyExists) in
                if \<not> passwordMatch then (Reply 401 (Message ''Email or password incorrect''), s1)
                else
                  (Reply 200
                     (TokenBody
                        (jwt_sign (user_id userAlreadyExists) (user_email userAlreadyExists)
                           ''7d'')),
                   s1))))"

definition post_devices :: "int \<Rightarrow> jwt_user \<Rightarrow> jv option \<Rightarrow> store \<Rightarrow> response \<times> store" where
  "post_devices now usr b s =
     (case deviceSchema_parse b of
        None \<Rightarrow> (Failed ZodError, s)
      | Some serialNumber \<Rightarrow>
          (case device_findFirst serialNumber s of
             (Some deviceAlreadyExists, s1) \<Rightarrow> (Reply 201 (DeviceBody deviceAlreadyExists), s1)
           | (None, s1) \<Rightarrow>
               (case device_create now serialNumber s1 of
                  (Inl e, s2) \<Rightarrow> (Failed (PrismaError e), s2)
                | (Inr d, s2) \<Rightarrow>
                    (case userDevice_create (ju_id usr) (device_id d) s2 of
                       (l, s3) \<Rightarrow> (Reply 201 (DeviceBody d), s3)))))"

definition delete_devices_id ::
  "lib \<Rightarrow> jwt_user \<Rightarrow> objectId \<Rightarrow> store \<Rightarrow> response \<times> store" where
  "delete_devices_id L usr i s =
     (let s1 = userDevice_deleteMany (ju_id usr) i s in
      case device_delete L i s1 of
        (Inl e, s2) \<Rightarrow> (Failed (PrismaError e), s2)
      | (Inr d, s2) \<Rightarrow> (Reply 200 NoBody, s2))"

definition get_devices :: "jwt_user \<Rightarrow> store \<Rightarrow> response \<times> store" where
  "get_devices usr s =
     (case userDevice_findMany (ju_id usr) s of
        (userDevices', s1) \<Rightarrow>
          (let deviceIds = map ud_deviceId userDevices' in
           case device_findMany deviceIds s1 of
             (devices', s2) \<Rightarrow> (Reply 200 (DevicesBody devices'), s2)))"

text \<open>The three \<open>if\<close> statements that fill \<open>queryArgs\<close>, in the order of the source.\<close>

definition queryArgs :: "lib \<Rightarrow> string option \<Rightarrow> string option \<Rightarrow> dateFilter option" where
  "queryArgs L startDate endDate =
     (let q0 = None;
          q1 = (if truthy startDate \<and> truthy endDate
                then Some \<lparr>gte = Some (to_Date L (the startDate)),
                           lte = Some (to_Date L (the endDate))\<rparr>
                else q0);
          q2 = (if truthy startDate \<and> \<not> truthy endDate
                then Some \<lparr>gte = Some (to_Date L (the startDate)), lte = None\<rparr>
                else q1);
          q3 = (if \<not> truthy startDate \<and> truthy endDate
                then Some \<lparr>gte = None, lte = Some (to_Date L (the endDate))\<rparr>
                else q2)
      in q3)"

definition get_devices_events ::
  "lib \<Rightarrow> string option \<Rightarrow> (string \<times> jv) list \<Rightarrow> store \<Rightarrow> response \<times> store" where
  "get_devices_events L serialNumber q s =
     (if \<not> truthy serialNumber then (Reply 400 (Message ''Serial number must be provided''), s)
      else
        (case device_findFirst (the serialNumber) s of
           (None, s1) \<Rightarrow> (Reply 404 (Message ''Can not find the device''), s1)
         | (Some d, s1) \<Rightarrow>
             (case queryParamsSchema_parse L q of
                None \<Rightarrow> (Failed ZodError, s1)
              | Some (startDate, endDate) \<Rightarrow>
                  (case deviceEvent_findMany (device_id d) (queryArgs L startDate endDate) s1 of
                     (deviceEvents', s2) \<Rightarrow> (Reply 200 (EventsBody deviceEvents'), s2)))))"

definition post_devices_events ::
  "lib \<Rightarrow> int \<Rightarrow> string option \<Rightarrow> jv option \<Rightarrow> store \<Rightarrow> response \<times> store" where
  "post_devices_events L now serialNumber b s =
     (case eventSchema_parse L b of
        None \<Rightarrow> (Failed ZodError, s)
      | Some ev \<Rightarrow>
          (if \<not> truthy serialNumber
           then (Reply 400 (Message ''Serial number must be provided''), s)
           else
             (case device_findFirst (the serialNumber) s of
                (found, s1) \<Rightarrow>
                  (case (case found of
                           Some d \<Rightarrow> (Inr d, s1)
                         | None \<Rightarrow> device_create now (the serialNumber) s1) of
                     (Inl e, s2) \<Rightarrow> (Failed (PrismaError e), s2)
                   | (Inr d, s2) \<Rightarrow>
                       (case deviceEvent_create now (device_id d) (in_macAddress ev)
                               (in_ipAddress ev) (in_soilMoisture ev) (in_humidity ev)
                               (in_temperature ev) (in_lighIntensity ev)
                               (to_Date L (in_happenedAt ev)) s2 of
                          (deviceEvent, s3) \<Rightarrow> (Reply 201 (EventBody deviceEvent), s3))))))"

section \<open>The server\<close>

text \<open>A request runs the application's \<open>onRequest\<close> hook, then, on the routes registered
  with \<open>onRequest: [app.authenticate]\<close>, the session check, then the handler.\<close>

definition authenticated ::
  "lib \<Rightarrow> int \<Rightarrow> request \<Rightarrow> store \<Rightarrow> (jwt_user \<Rightarrow> response \<times> store) \<Rightarrow> response \<times> store" where
  "authenticated L now req s handler =
     (case authenticate L now req of Inl e \<Rightarrow> (Failed e, s) | Inr usr \<Rightarrow> handler usr)"

definition serve :: "lib \<Rightarrow> env \<Rightarrow> int \<Rightarrow> request \<Rightarrow> store \<Rightarrow> response \<times> store" where
  "serve L E now req s =
     (if \<not> onRequest E req then (Reply 403 NoBody, s)
      else
        (case route req of
           PostAuthRegister \<Rightarrow> post_auth_register L E now (reqBody req) s
         | PostAuthLogin \<Rightarrow> post_auth_login L (reqBody req) s
         | PostDevices \<Rightarrow>
             authenticated L now req s (\<lambda>usr. post_devices now usr (reqBody req) s)
         | DeleteDevicesId i \<Rightarrow> authenticated L now req s (\<lambda>usr. delete_devices_id L usr i s)
         | GetDevices \<Rightarrow> authenticated L now req s (\<lambda>usr. get_devices usr s)
         | GetDevicesEvents serialNumber \<Rightarrow>
             authenticated L now req s
               (\<lambda>usr. get_devices_events L serialNumber (reqQuery req) s)
         | PostDevicesEvents serialNumber \<Rightarrow>
             post_devices_events L now serialNumber (reqBody req) s))"

section \<open>A concrete run\<close>

text \<open>
  Library functions, an environment and a store for evaluating the handlers on concrete
  requests: two registered users, Alice (id 0) and Bob (id 1); the device \<open>S1\<close> (id 2)
  registered by Alice and linked to her alone; three events ingested for it. The example
  client restricts the delete of a referenced device; the other setting is
  \<open>example_lib\<lparr>onDelete_restrict := False\<rparr>\<close>.
\<close>

definition example_dates :: "(string \<times> int) list" where
  "example_dates =
     [(''2023-12-31T00:00:00Z'', 1703980800000),
      (''2024-01-01T00:00:00Z'', 1704067200000),
      (''2024-01-15T00:00:00Z'', 1705276800000),
      (''2024-01-31T23:59:59Z'', 1706745599000),
      (''2024-02-01T00:00:00Z'', 1706745600000)]"

definition alice :: jwt_user where
  "alice = \<lparr>ju_id = 0, ju_email = ''alice@example.com''\<rparr>"

definition bob :: jwt_user where
  "bob = \<lparr>ju_id = 1, ju_email = ''bob@example.com''\<rparr>"

definition example_lib :: lib where
  "example_lib =
     \<lparr>z_email = (\<lambda>x. CHR ''@'' \<in> set x),
      z_ip = (\<lambda>x. CHR ''.'' \<in> set x),
      z_datetime = (\<lambda>x. x \<in> set (map fst example_dates)),
      to_Date = (\<lambda>x. case map_of example_dates x of Some t \<Rightarrow> t | None \<Rightarrow> 0),
      bcrypt_hash = (\<lambda>p cost. ''$2b$'' @ p),
      bcrypt_compare = (\<lambda>p h. h = ''$2b$'' @ p),
      jwtVerify = (\<lambda>h now. case h of None \<Rightarrow> None
                               | Some v \<Rightarrow> map_of [(''Bearer alice'', alice), (''Bearer bob'', bob)] v),
      onDelete_restrict = True\<rparr>"

definition example_env :: env where
  "example_env = \<lparr>API_KEY = Some ''k'', JWT_EXPIRES_IN = None\<rparr>"

definition credentials :: "string \<Rightarrow> string \<Rightarrow> jv option" where
  "credentials e p = Some (JObj [(''email'', JStr e), (''password'', JStr p)])"

definition reading :: "string \<Rightarrow> jv option" where
  "reading t =
     Some (JObj [(''macAddress'', JStr ''aa:bb''), (''ipAddress'', JStr ''10.0.0.7''),
                 (''soilMoisture'', JNum 40), (''humidity'', JNum 55),
                 (''temperature'', JNum 21), (''lighIntensity'', JNum 300),
                 (''happenedAt'', JStr t)])"

definition example_event :: "objectId \<Rightarrow> int \<Rightarrow> int \<Rightarrow> deviceEvent" where
  "example_event i t c =
     \<lparr>ev_id = i, ev_deviceId = 2, ev_macAddress = ''aa:bb'', ev_ipAddress = ''10.0.0.7'',
      ev_soilMoisture = Some 40, ev_humidity = Some 55, ev_temperature = Some 21,
      ev_lighIntensity = Some 300, ev_happenedAt = t, ev_createdAt = c\<rparr>"

definition example_store :: store where
  "example_store =
     \<lparr>users =
        [\<lparr>user_id = 0, user_email = ''alice@example.com'', user_password = ''$2b$pw-a'',
          user_createdAt = 1000\<rparr>,
         \<lparr>user_id = 1, user_email = ''bob@example.com'', user_password = ''$2b$pw-b'',
          user_createdAt = 2000\<rparr>],
      devices = [\<lparr>device_id = 2, device_serialNumber = ''S1'', device_createdAt = 3000\<rparr>],
      userDevices = [\<lparr>ud_id = 3, ud_userId = 0, ud_deviceId = 2\<rparr>],
      deviceEvents =
        [example_event 4 1703980800000 4000, example_event 5 1705276800000 5000,
         example_event 6 1706745600000 6000],
      next_id = 7,
      queries = []\<rparr>"

definition req :: "string option \<Rightarrow> route \<Rightarrow> jv option \<Rightarrow> (string \<times> jv) list \<Rightarrow> request" where
  "req a r b q =
     \<lparr>x_api_key = Some ''k'', authorization = a, route = r, reqBody = b, reqQuery = q\<rparr>"

definition example_requests :: "(int \<times> request) list" where
  "example_requests =
     [(1000, req None PostAuthRegister (credentials ''alice@example.com'' ''pw-a'') []),
      (2000, req None PostAuthRegister (credentials ''bob@example.com'' ''pw-b'') []),
      (3000, req (Some ''Bearer alice'') PostDevices
               (Some (JObj [(''serialNumber'', JStr ''S1'')])) []),
      (4000, req None (PostDevicesEvents (Some ''S1'')) (reading ''2023-12-31T00:00:00Z'') []),
      (5000, req None (PostDevicesEvents (Some ''S1'')) (reading ''2024-01-15T00:00:00Z'') []),
      (6000, req None (PostDevicesEvents (Some ''S1'')) (reading ''2024-02-01T00:00:00Z'') [])]"

text \<open>Serving a list of timed requests one after the other.\<close>

fun serve_all :: "lib \<Rightarrow> env \<Rightarrow> (int \<times> request) list \<Rightarrow> store \<Rightarrow> store" where
  "serve_all L E [] s = s"
| "serve_all L E ((now, r) # rs) s = serve_all L E rs (snd (serve L E now r s))"

text \<open>
  The interval predicate as the specification's table words it, for the instants of the
  bounds that are present.
\<close>

definition in_window :: "int option \<Rightarrow> int option \<Rightarrow> int \<Rightarrow> bool" where
  "in_window startDate endDate happenedAt =
     (case (startDate, endDate) of
        (None, None) \<Rightarrow> True
      | (Some a, None) \<Rightarrow> happenedAt \<ge> a
      | (None, Some b) \<Rightarrow> happenedAt \<le> b
      | (Some a, Some b) \<Rightarrow> a \<le> happenedAt \<and> happenedAt \<le> b)"

text \<open>
  The routes registered with \<open>onRequest: [app.authenticate]\<close>.
\<close>

fun session_gated :: "route \<Rightarrow> bool" where
  "session_gated PostAuthRegister = False"
| "session_gated PostAuthLogin = False"
| "session_gated PostDevices = True"
| "session_gated (DeleteDevicesId i) = True"
| "session_gated GetDevices = True"
| "session_gated (GetDevicesEvents serialNumber) = True"
| "session_gated (PostDevicesEvents serialNumber) = False"

section \<open>Properties\<close>

text \<open>The example store is what the server holds after the example requests, the
  record of storage calls apart.\<close>

lemma example_store_reached:
  "serve_all example_lib example_env example_requests empty_store =
     example_store\<lparr>queries :=
       [UserFindFirst ''alice@example.com'', UserCreate ''alice@example.com'',
        UserFindFirst ''bob@example.com'', UserCreate ''bob@example.com'',
        DeviceFindFirst ''S1'', DeviceCreate ''S1'', UserDeviceCreate 0 2,
        DeviceFindFirst ''S1'', DeviceEventCreate 2, DeviceFindFirst ''S1'',
        DeviceEventCreate 2, DeviceFindFirst ''S1'', DeviceEventCreate 2]\<rparr>"
  by code_simp

lemma find_None_iff_email:
  "find (\<lambda>u. user_email u = email) us = None \<longleftrightarrow> email \<notin> set (map user_email us)"
  by (induction us) auto

text \<open>
  Claim C8. Registering an email that is already registered yields Conflict (409) and
  creates no second User row: the handler makes the one lookup by email and replies, so
  the store is the one it found, the users in particular.
\<close>

theorem register_existing_email_conflict:
  assumes "userSchema_parse L b = Some (email, password)"
    and "email \<in> set (map user_email (users s))"
  shows "post_auth_register L E now b s =
           (Reply 409 (Message ''User already exists''), logq (UserFindFirst email) s)
         \<and> users (snd (post_auth_register L E now b s)) = users s"
proof -
  from assms(2) obtain u where "find (\<lambda>u. user_email u = email) (users s) = Some u"
    using find_None_iff_email [of email "users s"]
    by (cases "find (\<lambda>u. user_email u = email) (users s)") auto
  with assms(1) show ?thesis
    by (simp add: post_auth_register_def user_findFirst_def logq_def)
qed

theorem register_existing_email_conflict_witness:
  "post_auth_register example_lib example_env 7000
       (credentials ''alice@example.com'' ''other'') example_store =
     (Reply 409 (Message ''User already exists''),
      logq (UserFindFirst ''alice@example.com'') example_store)
   \<and> users (snd (post_auth_register example_lib example_env 7000
       (credentials ''alice@example.com'' ''other'') example_store)) = users example_store"
proof -
  have p: "userSchema_parse example_lib (credentials ''alice@example.com'' ''other'') =
             Some (''alice@example.com'', ''other'')"
    by code_simp
  have m: "''alice@example.com'' \<in> set (map user_email (users example_store))"
    by code_simp
  show ?thesis
    by (rule register_existing_email_conflict [OF p m])
qed

text \<open>
  Claim C9. A login that fails because the email matches no user and a login that fails
  because the password does not verify against the stored hash get the same reply, 401
  with the same message, after the same single lookup.
\<close>

theorem login_failures_indistinguishable:
  assumes "userSchema_parse L b = Some (email, password)"
    and "find (\<lambda>u. user_email u = email) (users s) = None \<or>
         (\<exists>u. find (\<lambda>u. user_email u = email) (users s) = Some u \<and>
              \<not> bcrypt_compare L password (user_password u))"
  shows "post_auth_login L b s =
           (Reply 401 (Message ''Email or password incorrect''), logq (UserFindFirst email) s)"
  using assms by (auto simp: post_auth_login_def user_findFirst_def)

theorem login_failures_indistinguishable_witness:
  "post_auth_login example_lib (credentials ''carol@example.com'' ''pw-a'') example_store =
     (Reply 401 (Message ''Email or password incorrect''),
      logq (UserFindFirst ''carol@example.com'') example_store)
   \<and> post_auth_login example_lib (credentials ''alice@example.com'' ''guess'') example_store =
     (Reply 401 (Message ''Email or password incorrect''),
      logq (UserFindFirst ''alice@example.com'') example_store)"
proof -
  have p1: "userSchema_parse example_lib (credentials ''carol@example.com'' ''pw-a'') =
              Some (''carol@example.com'', ''pw-a'')"
    by code_simp
  have c1: "find (\<lambda>u. user_email u = ''carol@example.com'') (users example_store) = None"
    by code_simp
  have p2: "userSchema_parse example_lib (credentials ''alice@example.com'' ''guess'') =
              Some (''alice@example.com'', ''guess'')"
    by code_simp
  have f2: "find (\<lambda>u. user_email u = ''alice@example.com'') (users example_store) =
              Some (hd (users example_store))"
    by code_simp
  have n2: "\<not> bcrypt_compare example_lib ''guess'' (user_password (hd (users example_store)))"
    by code_simp
  from f2 n2 have c2: "\<exists>u. find (\<lambda>u. user_email u = ''alice@example.com'') (users example_store) = Some u \<and>
              \<not> bcrypt_compare example_lib ''guess'' (user_password u)"
    by blast
  show ?thesis
    using login_failures_indistinguishable [OF p1 disjI1 [OF c1]]
      login_failures_indistinguishable [OF p2 disjI2 [OF c2]]
    by simp
qed

text \<open>
  Claim C10. If a device with the requested serial number exists, POST /devices replies
  201 with that device and changes no row: no device and no ownership link is created,
  and the requester's device listing is what it was.
\<close>

theorem post_devices_existing_serial_is_noop:
  assumes "deviceSchema_parse b = Some serialNumber"
    and "find (\<lambda>d. device_serialNumber d = serialNumber) (devices s) = Some d"
  shows "post_devices now usr b s =
           (Reply 201 (DeviceBody d), logq (DeviceFindFirst serialNumber) s)
         \<and> devices (snd (post_devices now usr b s)) = devices s
         \<and> userDevices (snd (post_devices now usr b s)) = userDevices s
         \<and> fst (get_devices usr (snd (post_devices now usr b s))) = fst (get_devices usr s)"
  using assms
  by (simp add: post_devices_def device_findFirst_def logq_def get_devices_def
      userDevice_findMany_def device_findMany_def)

theorem post_devices_existing_serial_is_noop_witness:
  "post_devices 7000 bob (Some (JObj [(''serialNumber'', JStr ''S1'')])) example_store =
           (Reply 201 (DeviceBody (hd (devices example_store))),
            logq (DeviceFindFirst ''S1'') example_store)
   \<and> fst (get_devices bob
        (snd (post_devices 7000 bob (Some (JObj [(''serialNumber'', JStr ''S1'')])) example_store)))
     = Reply 200 (DevicesBody [])"
proof -
  have p: "deviceSchema_parse (Some (JObj [(''serialNumber'', JStr ''S1'')])) = Some ''S1''"
    by code_simp
  have f: "find (\<lambda>d. device_serialNumber d = ''S1'') (devices example_store) =
             Some (hd (devices example_store))"
    by code_simp
  have g: "fst (get_devices bob example_store) = Reply 200 (DevicesBody [])"
    by code_simp
  note t = post_devices_existing_serial_is_noop [OF p f, of 7000 bob]
  from t have e1: "post_devices 7000 bob (Some (JObj [(''serialNumber'', JStr ''S1'')]))
        example_store =
      (Reply 201 (DeviceBody (hd (devices example_store))),
       logq (DeviceFindFirst ''S1'') example_store)"
    by (rule conjunct1)
  from t have e2: "fst (get_devices bob
        (snd (post_devices 7000 bob (Some (JObj [(''serialNumber'', JStr ''S1'')]))
               example_store))) = fst (get_devices bob example_store)"
    by blast
  show ?thesis
    by (intro conjI) (rule e1, simp only: e2 g)
qed

text \<open>A bound that passed the datetime format is not the empty string, so it is truthy.\<close>

lemma parsed_dates_nonempty:
  assumes "queryParamsSchema_parse L q = Some (startDate, endDate)" and "\<not> z_datetime L []"
  shows "startDate \<noteq> Some [] \<and> endDate \<noteq> Some []"
  using assms
  by (auto simp: queryParamsSchema_parse_def z_optional_def z_format_def z_string_def
      split: option.splits jv.splits if_splits bind_splits)

lemma queryArgs_in_window:
  assumes "startDate \<noteq> Some []" and "endDate \<noteq> Some []"
  shows "matches (queryArgs L startDate endDate) t =
           in_window (map_option (to_Date L) startDate) (map_option (to_Date L) endDate) t"
  using assms
  by (cases startDate; cases endDate)
    (auto simp: queryArgs_def matches_def in_window_def truthy_def)

text \<open>
  Claim C7. For every combination of optional bounds that pass validation, the listing
  returns exactly the events of the device whose \<open>happenedAt\<close> satisfies the
  specification's predicate: no constraint without bounds, \<open>happenedAt \<ge> startDate\<close> with
  the start alone, \<open>happenedAt \<le> endDate\<close> with the end alone, both (inclusive) with both.
  The datetime format is a parameter; it is assumed to reject the empty string.
\<close>

theorem event_listing_window:
  assumes "\<not> z_datetime L []"
    and "sn \<noteq> []"
    and "find (\<lambda>d. device_serialNumber d = sn) (devices s) = Some d"
    and "queryParamsSchema_parse L q = Some (startDate, endDate)"
  shows "fst (get_devices_events L (Some sn) q s) =
           Reply 200 (EventsBody (filter
             (\<lambda>e. ev_deviceId e = device_id d \<and>
                  in_window (map_option (to_Date L) startDate) (map_option (to_Date L) endDate)
                    (ev_happenedAt e))
             (deviceEvents s)))"
proof -
  from parsed_dates_nonempty [OF assms(4) assms(1)]
  have w: "\<And>t. matches (queryArgs L startDate endDate) t =
             in_window (map_option (to_Date L) startDate) (map_option (to_Date L) endDate) t"
    by (simp add: queryArgs_in_window)
  from assms(2,3,4) show ?thesis
    by (simp add: get_devices_events_def truthy_def device_findFirst_def logq_def
        deviceEvent_findMany_def w)
qed


theorem event_listing_window_witness:
  "fst (get_devices_events example_lib (Some ''S1'')
          [(''startDate'', JStr ''2024-01-01T00:00:00Z''),
           (''endDate'', JStr ''2024-01-31T23:59:59Z'')] example_store) =
     Reply 200 (EventsBody [example_event 5 1705276800000 5000])
   \<and> fst (get_devices_events example_lib (Some ''S1'')
          [(''startDate'', JStr ''2024-01-15T00:00:00Z'')] example_store) =
     Reply 200 (EventsBody [example_event 5 1705276800000 5000,
                            example_event 6 1706745600000 6000])
   \<and> fst (get_devices_events example_lib (Some ''S1'')
          [(''endDate'', JStr ''2024-01-15T00:00:00Z'')] example_store) =
     Reply 200 (EventsBody [example_event 4 1703980800000 4000,
                            example_event 5 1705276800000 5000])
   \<and> fst (get_devices_events example_lib (Some ''S1'') [] example_store) =
     Reply 200 (EventsBody (deviceEvents example_store))"
proof -
  have z: "\<not> z_datetime example_lib []"
    by code_simp
  have n: "''S1'' \<noteq> []"
    by simp
  have f: "find (\<lambda>d. device_serialNumber d = ''S1'') (devices example_store) =
             Some (hd (devices example_store))"
    by code_simp
  have p1: "queryParamsSchema_parse example_lib
              [(''startDate'', JStr ''2024-01-01T00:00:00Z''),
               (''endDate'', JStr ''2024-01-31T23:59:59Z'')] =
            Some (Some ''2024-01-01T00:00:00Z'', Some ''2024-01-31T23:59:59Z'')"
    by code_simp
  have p2: "queryParamsSchema_parse example_lib [(''startDate'', JStr ''2024-01-15T00:00:00Z'')] =
            Some (Some ''2024-01-15T00:00:00Z'', None)"
    by code_simp
  have p3: "queryParamsSchema_parse example_lib [(''endDate'', JStr ''2024-01-15T00:00:00Z'')] =
            Some (None, Some ''2024-01-15T00:00:00Z'')"
    by code_simp
  have p4: "queryParamsSchema_parse example_lib [] = Some (None, None)"
    by code_simp
  have v1: "filter (\<lambda>e. ev_deviceId e = device_id (hd (devices example_store)) \<and>
               in_window (map_option (to_Date example_lib) (Some ''2024-01-01T00:00:00Z''))
                 (map_option (to_Date example_lib) (Some ''2024-01-31T23:59:59Z''))
                 (ev_happenedAt e)) (deviceEvents example_store) =
            [example_event 5 1705276800000 5000]"
    by code_simp
  have v2: "filter (\<lambda>e. ev_deviceId e = device_id (hd (devices example_store)) \<and>
               in_window (map_option (to_Date example_lib) (Some ''2024-01-15T00:00:00Z''))
                 (map_option (to_Date example_lib) None)
                 (ev_happenedAt e)) (deviceEvents example_store) =
            [example_event 5 1705276800000 5000, example_event 6 1706745600000 6000]"
    by code_simp
  have v3: "filter (\<lambda>e. ev_deviceId e = device_id (hd (devices example_store)) \<and>
               in_window (map_option (to_Date example_lib) None)
                 (map_option (to_Date example_lib) (Some ''2024-01-15T00:00:00Z''))
                 (ev_happenedAt e)) (deviceEvents example_store) =
            [example_event 4 1703980800000 4000, example_event 5 1705276800000 5000]"
    by code_simp
  have v4: "filter (\<lambda>e. ev_deviceId e = device_id (hd (devices example_store)) \<and>
               in_window (map_option (to_Date example_lib) None)
                 (map_option (to_Date example_lib) None)
                 (ev_happenedAt e)) (deviceEvents example_store) =
            deviceEvents example_store"
    by code_simp
  show ?thesis
    using event_listing_window [OF z n f p1] event_listing_window [OF z n f p2]
      event_listing_window [OF z n f p3] event_listing_window [OF z n f p4]
    by (simp only: v1 v2 v3 v4 simp_thms)
qed

text \<open>
  Lookups by serial number and by id.
\<close>

lemma find_None_iff_serial:
  "find (\<lambda>d. device_serialNumber d = sn) ds = None \<longleftrightarrow> sn \<notin> set (map device_serialNumber ds)"
  by (induction ds) auto

lemma find_None_iff_id:
  "find (\<lambda>d. device_id d = i) ds = None \<longleftrightarrow> i \<notin> set (map device_id ds)"
  by (induction ds) auto

text \<open>
  Claim C3 as stated fails: the two expiries are the other way round. With
  \<open>JWT_EXPIRES_IN\<close> unset, the registration token expires in one day, not seven; with
  \<open>JWT_EXPIRES_IN\<close> set to one hour, the login token still expires in seven days.
\<close>

theorem token_expiry_counterexample:
  "fst (serve example_lib \<lparr>API_KEY = Some ''k'', JWT_EXPIRES_IN = None\<rparr> 1000
          (req None PostAuthRegister (credentials ''alice@example.com'' ''pw-a'') [])
          empty_store) =
     Reply 201 (TokenBody
       \<lparr>tok_id = 0, tok_email = ''alice@example.com'', tok_expiresIn = ''1d''\<rparr>)
   \<and> fst (serve example_lib \<lparr>API_KEY = Some ''k'', JWT_EXPIRES_IN = Some ''1h''\<rparr> 7000
          (req None PostAuthLogin (credentials ''alice@example.com'' ''pw-a'') [])
          example_store) =
     Reply 200 (TokenBody
       \<lparr>tok_id = 0, tok_email = ''alice@example.com'', tok_expiresIn = ''7d''\<rparr>)"
  by code_simp

text \<open>
  Claim C3, amended. The token issued by the registration flow takes its expiry from
  \<open>JWT_EXPIRES_IN\<close>, one day when the variable is unset or empty; the token issued by the
  login flow expires in seven days, whatever \<open>JWT_EXPIRES_IN\<close> is.
\<close>

theorem token_expiry_by_route:
  "(route r = PostAuthRegister \<and> fst (serve L E now r s) = Reply st (TokenBody t) \<longrightarrow>
      tok_expiresIn t =
        (case JWT_EXPIRES_IN E of None \<Rightarrow> ''1d'' | Some v \<Rightarrow> if v = [] then ''1d'' else v))
   \<and> (route r = PostAuthLogin \<and> fst (serve L E now r s) = Reply st (TokenBody t) \<longrightarrow>
      tok_expiresIn t = ''7d'')"
proof (intro conjI impI; elim conjE)
  assume "route r = PostAuthRegister" and "fst (serve L E now r s) = Reply st (TokenBody t)"
  then show "tok_expiresIn t =
        (case JWT_EXPIRES_IN E of None \<Rightarrow> ''1d'' | Some v \<Rightarrow> if v = [] then ''1d'' else v)"
    by (auto simp: serve_def post_auth_register_def jwt_sign_def truthy_def user_findFirst_def
        user_create_def Let_def
        split: if_splits option.splits prod.splits sum.splits)
next
  assume "route r = PostAuthLogin" and "fst (serve L E now r s) = Reply st (TokenBody t)"
  then show "tok_expiresIn t = ''7d''"
    by (auto simp: serve_def post_auth_login_def jwt_sign_def user_findFirst_def Let_def
        split: if_splits option.splits prod.splits)
qed

theorem token_expiry_by_route_witness:
  "fst (serve example_lib \<lparr>API_KEY = Some ''k'', JWT_EXPIRES_IN = Some ''2h''\<rparr> 1000
          (req None PostAuthRegister (credentials ''alice@example.com'' ''pw-a'') [])
          empty_store) =
     Reply 201 (TokenBody
       \<lparr>tok_id = 0, tok_email = ''alice@example.com'', tok_expiresIn = ''2h''\<rparr>)
   \<and> tok_expiresIn \<lparr>tok_id = 0, tok_email = ''alice@example.com'', tok_expiresIn = ''2h''\<rparr> =
       ''2h''
   \<and> fst (serve example_lib \<lparr>API_KEY = Some ''k'', JWT_EXPIRES_IN = Some ''2h''\<rparr> 7000
          (req None PostAuthLogin (credentials ''alice@example.com'' ''pw-a'') [])
          example_store) =
     Reply 200 (TokenBody
       \<lparr>tok_id = 0, tok_email = ''alice@example.com'', tok_expiresIn = ''7d''\<rparr>)
   \<and> tok_expiresIn \<lparr>tok_id = 0, tok_email = ''alice@example.com'', tok_expiresIn = ''7d''\<rparr> =
       ''7d''"
proof -
  let ?E = "\<lparr>API_KEY = Some ''k'', JWT_EXPIRES_IN = Some ''2h''\<rparr>"
  let ?r1 = "req None PostAuthRegister (credentials ''alice@example.com'' ''pw-a'') []"
  let ?r2 = "req None PostAuthLogin (credentials ''alice@example.com'' ''pw-a'') []"
  let ?t1 = "\<lparr>tok_id = 0, tok_email = ''alice@example.com'', tok_expiresIn = ''2h''\<rparr>"
  let ?t2 = "\<lparr>tok_id = 0, tok_email = ''alice@example.com'', tok_expiresIn = ''7d''\<rparr>"
  have r1: "route ?r1 = PostAuthRegister"
    by code_simp
  have r2: "route ?r2 = PostAuthLogin"
    by code_simp
  have a: "fst (serve example_lib ?E 1000 ?r1 empty_store) = Reply 201 (TokenBody ?t1)"
    by code_simp
  have b: "fst (serve example_lib ?E 7000 ?r2 example_store) = Reply 200 (TokenBody ?t2)"
    by code_simp
  have v: "(case JWT_EXPIRES_IN ?E of None \<Rightarrow> ''1d'' | Some v \<Rightarrow> if v = [] then ''1d'' else v)
             = ''2h''"
    by code_simp
  from token_expiry_by_route [where r = ?r1 and L = example_lib and E = ?E and now = 1000
      and s = empty_store and st = 201 and t = ?t1] r1 a
  have c: "tok_expiresIn ?t1 =
      (case JWT_EXPIRES_IN ?E of None \<Rightarrow> ''1d'' | Some v \<Rightarrow> if v = [] then ''1d'' else v)"
    by blast
  from token_expiry_by_route [where r = ?r2 and L = example_lib and E = ?E and now = 7000
      and s = example_store and st = 200 and t = ?t2] r2 b
  have d: "tok_expiresIn ?t2 = ''7d''"
    by blast
  show ?thesis
    by (intro conjI) (rule a, simp only: c v, rule b, rule d)
qed

text \<open>
  Claim C4 as stated fails. A request for the device listing that carries Alice's valid
  session token and no \<open>x-api-key\<close> header is rejected with 403 by the key check.
\<close>

theorem valid_session_rejected_by_key_counterexample:
  "jwtVerify example_lib (Some ''Bearer alice'') 7000 = Some alice
   \<and> serve example_lib example_env 7000
        \<lparr>x_api_key = None, authorization = Some ''Bearer alice'', route = GetDevices,
         reqBody = None, reqQuery = []\<rparr> example_store =
      (Reply 403 NoBody, example_store)"
  by code_simp

text \<open>
  Claim C4, amended. The key check applies to every route, user-originated ones included,
  and runs first: a request whose \<open>x-api-key\<close> header differs from the configured
  \<open>API_KEY\<close> (an absent header differs from a key that is set) is answered 403 with no
  storage access, also when it carries a valid session token. The session check applies in
  addition on the user routes for devices: there a request that passed the key check
  without a valid token fails with the verification error and no storage access. On the
  other routes (register, login, ingestion) the \<open>Authorization\<close> header plays no part.
\<close>

theorem gates_by_route:
  "(API_KEY E \<noteq> x_api_key r \<longrightarrow> serve L E now r s = (Reply 403 NoBody, s))
   \<and> (API_KEY E = x_api_key r \<and> session_gated (route r) \<and>
        jwtVerify L (authorization r) now = None \<longrightarrow>
      serve L E now r s = (Failed JwtError, s))
   \<and> (\<not> session_gated (route r) \<longrightarrow>
      serve L E now (r\<lparr>authorization := a\<rparr>) s = serve L E now r s)"
proof (intro conjI impI)
  assume "API_KEY E \<noteq> x_api_key r"
  then show "serve L E now r s = (Reply 403 NoBody, s)"
    by (simp add: serve_def onRequest_def)
next
  assume "API_KEY E = x_api_key r \<and> session_gated (route r) \<and>
        jwtVerify L (authorization r) now = None"
  then show "serve L E now r s = (Failed JwtError, s)"
    by (cases "route r") (simp_all add: serve_def onRequest_def authenticated_def authenticate_def)
next
  assume "\<not> session_gated (route r)"
  then show "serve L E now (r\<lparr>authorization := a\<rparr>) s = serve L E now r s"
    by (cases "route r") (simp_all add: serve_def onRequest_def)
qed

theorem gates_by_route_witness:
  "serve example_lib example_env 7000
     \<lparr>x_api_key = Some ''wrong'', authorization = None, route = PostDevicesEvents (Some ''S1''),
      reqBody = reading ''2024-01-15T00:00:00Z'', reqQuery = []\<rparr> example_store =
     (Reply 403 NoBody, example_store)
   \<and> serve example_lib example_env 7000
       (req (Some ''Bearer mallory'') GetDevices None []) example_store =
     (Failed JwtError, example_store)
   \<and> serve example_lib example_env 7000
       ((req None PostAuthLogin (credentials ''alice@example.com'' ''pw-a'') [])
          \<lparr>authorization := Some ''Bearer bob''\<rparr>) example_store =
     serve example_lib example_env 7000
       (req None PostAuthLogin (credentials ''alice@example.com'' ''pw-a'') []) example_store"
proof -
  let ?r1 = "\<lparr>x_api_key = Some ''wrong'', authorization = None,
      route = PostDevicesEvents (Some ''S1''),
      reqBody = reading ''2024-01-15T00:00:00Z'', reqQuery = []\<rparr>"
  let ?r2 = "req (Some ''Bearer mallory'') GetDevices None []"
  let ?r3 = "req None PostAuthLogin (credentials ''alice@example.com'' ''pw-a'') []"
  have k1: "API_KEY example_env \<noteq> x_api_key ?r1"
    by code_simp
  have k2: "API_KEY example_env = x_api_key ?r2 \<and> session_gated (route ?r2) \<and>
        jwtVerify example_lib (authorization ?r2) 7000 = None"
    by code_simp
  have k3: "\<not> session_gated (route ?r3)"
    by code_simp
  from gates_by_route [where E = example_env and r = ?r1 and L = example_lib and now = 7000
      and s = example_store] k1
  have a: "serve example_lib example_env 7000 ?r1 example_store =
             (Reply 403 NoBody, example_store)"
    by blast
  from gates_by_route [where E = example_env and r = ?r2 and L = example_lib and now = 7000
      and s = example_store] k2
  have b: "serve example_lib example_env 7000 ?r2 example_store =
             (Failed JwtError, example_store)"
    by blast
  from gates_by_route [where E = example_env and r = ?r3 and L = example_lib and now = 7000
      and s = example_store and a = "Some ''Bearer bob''"] k3
  have c: "serve example_lib example_env 7000 (?r3\<lparr>authorization := Some ''Bearer bob''\<rparr>)
             example_store = serve example_lib example_env 7000 ?r3 example_store"
    by blast
  show ?thesis
    by (intro conjI) (rule a, rule b, rule c)
qed

text \<open>
  Claim C5 as stated fails. An ingestion request whose body has every field but
  \<open>soilMoisture\<close>, or has \<open>soilMoisture\<close> null, is not accepted: the schema throws and no
  event is stored.
\<close>

theorem missing_reading_rejected_counterexample:
  "serve example_lib example_env 7000
     (req None (PostDevicesEvents (Some ''S1''))
        (Some (JObj [(''macAddress'', JStr ''aa:bb''), (''ipAddress'', JStr ''10.0.0.7''),
                     (''humidity'', JNum 55), (''temperature'', JNum 21),
                     (''lighIntensity'', JNum 300),
                     (''happenedAt'', JStr ''2024-01-15T00:00:00Z'')])) [])
     example_store =
     (Failed ZodError, example_store)
   \<and> serve example_lib example_env 7000
     (req None (PostDevicesEvents (Some ''S1''))
        (Some (JObj [(''macAddress'', JStr ''aa:bb''), (''ipAddress'', JStr ''10.0.0.7''),
                     (''soilMoisture'', JNull),
                     (''humidity'', JNum 55), (''temperature'', JNum 21),
                     (''lighIntensity'', JNum 300),
                     (''happenedAt'', JStr ''2024-01-15T00:00:00Z'')])) [])
     example_store =
     (Failed ZodError, example_store)"
  by code_simp

lemma eventSchema_parse_needs_number:
  assumes "z_object b = Some kv"
    and "k \<in> set [''soilMoisture'', ''humidity'', ''temperature'', ''lighIntensity'']"
    and "z_number (map_of kv k) = None"
  shows "eventSchema_parse L b = None"
  using assms by (auto simp: eventSchema_parse_def split: bind_splits)

text \<open>
  Claim C5, amended. For every ingestion request all four sensor readings are required
  numbers: a request in which one of them is absent, null or not a number fails
  validation before any storage access, and nothing is stored; every event that is
  accepted (201) is stored with its four readings non-null.
\<close>

theorem ingestion_requires_all_readings:
  "(z_object b = Some kv \<and>
    k \<in> set [''soilMoisture'', ''humidity'', ''temperature'', ''lighIntensity''] \<and>
    z_number (map_of kv k) = None \<longrightarrow>
      post_devices_events L now serialNumber b s = (Failed ZodError, s))
   \<and> (post_devices_events L now serialNumber b s = (Reply st (EventBody e), s') \<longrightarrow>
      ev_soilMoisture e \<noteq> None \<and> ev_humidity e \<noteq> None \<and> ev_temperature e \<noteq> None \<and>
      ev_lighIntensity e \<noteq> None \<and> deviceEvents s' = deviceEvents s @ [e])"
proof (rule conjI; rule impI)
  assume "z_object b = Some kv \<and>
    k \<in> set [''soilMoisture'', ''humidity'', ''temperature'', ''lighIntensity''] \<and>
    z_number (map_of kv k) = None"
  then have "eventSchema_parse L b = None"
    using eventSchema_parse_needs_number by blast
  then show "post_devices_events L now serialNumber b s = (Failed ZodError, s)"
    by (simp add: post_devices_events_def)
next
  assume a: "post_devices_events L now serialNumber b s = (Reply st (EventBody e), s')"
  then show "ev_soilMoisture e \<noteq> None \<and> ev_humidity e \<noteq> None \<and> ev_temperature e \<noteq> None \<and>
      ev_lighIntensity e \<noteq> None \<and> deviceEvents s' = deviceEvents s @ [e]"
    by (auto simp: post_devices_events_def device_findFirst_def device_create_def
        deviceEvent_create_def logq_def Let_def
        split: option.splits if_splits prod.splits sum.splits)
qed

theorem ingestion_requires_all_readings_witness:
  "post_devices_events example_lib 7000 (Some ''S1'')
     (Some (JObj [(''macAddress'', JStr ''aa:bb''), (''ipAddress'', JStr ''10.0.0.7''),
                  (''soilMoisture'', JNum 40), (''humidity'', JNum 55),
                  (''lighIntensity'', JNum 300),
                  (''happenedAt'', JStr ''2024-01-15T00:00:00Z'')])) example_store =
     (Failed ZodError, example_store)
   \<and> ev_soilMoisture (example_event 7 1705276800000 7000) \<noteq> None
   \<and> deviceEvents (snd (post_devices_events example_lib 7000 (Some ''S1'')
        (reading ''2024-01-15T00:00:00Z'') example_store)) =
      deviceEvents example_store @ [example_event 7 1705276800000 7000]"
proof -
  let ?kv = "[(''macAddress'', JStr ''aa:bb''), (''ipAddress'', JStr ''10.0.0.7''),
                  (''soilMoisture'', JNum 40), (''humidity'', JNum 55),
                  (''lighIntensity'', JNum 300),
                  (''happenedAt'', JStr ''2024-01-15T00:00:00Z'')]"
  let ?s' = "snd (post_devices_events example_lib 7000 (Some ''S1'')
        (reading ''2024-01-15T00:00:00Z'') example_store)"
  have h1: "z_object (Some (JObj ?kv)) = Some ?kv \<and>
      ''temperature'' \<in> set [''soilMoisture'', ''humidity'', ''temperature'', ''lighIntensity''] \<and>
      z_number (map_of ?kv ''temperature'') = None"
    by code_simp
  have h2: "fst (post_devices_events example_lib 7000 (Some ''S1'')
        (reading ''2024-01-15T00:00:00Z'') example_store) =
      Reply 201 (EventBody (example_event 7 1705276800000 7000))"
    by code_simp
  then have h2': "post_devices_events example_lib 7000 (Some ''S1'')
        (reading ''2024-01-15T00:00:00Z'') example_store =
      (Reply 201 (EventBody (example_event 7 1705276800000 7000)), ?s')"
    by (simp add: prod_eq_iff)
  from ingestion_requires_all_readings [where b = "Some (JObj ?kv)" and kv = ?kv
      and k = "''temperature''" and L = example_lib and now = 7000
      and serialNumber = "Some ''S1''" and s = example_store] h1
  have a: "post_devices_events example_lib 7000 (Some ''S1'') (Some (JObj ?kv)) example_store =
             (Failed ZodError, example_store)"
    by blast
  from ingestion_requires_all_readings [where b = "reading ''2024-01-15T00:00:00Z''"
      and L = example_lib and now = 7000 and serialNumber = "Some ''S1''"
      and s = example_store and st = 201 and e = "example_event 7 1705276800000 7000"
      and s' = ?s'] h2'
  have b: "ev_soilMoisture (example_event 7 1705276800000 7000) \<noteq> None \<and>
           deviceEvents ?s' = deviceEvents example_store @ [example_event 7 1705276800000 7000]"
    by blast
  show ?thesis
    using a b by blast
qed

text \<open>
  Claim C6 as stated fails. An event listing with a malformed \<open>startDate\<close> for a serial
  number that no device has is answered 404, after the device lookup was made.
\<close>

theorem malformed_date_after_lookup_counterexample:
  "queryParamsSchema_parse example_lib [(''startDate'', JStr ''yesterday'')] = None
   \<and> serve example_lib example_env 7000
        (req (Some ''Bearer alice'') (GetDevicesEvents (Some ''S9'')) None
           [(''startDate'', JStr ''yesterday'')]) example_store =
      (Reply 404 (Message ''Can not find the device''),
       example_store\<lparr>queries := [DeviceFindFirst ''S9'']\<rparr>)"
  by code_simp

lemma malformed_date_fails_parse:
  assumes "(\<exists>x. map_of q ''startDate'' = Some (JStr x) \<and> \<not> z_datetime L x) \<or>
           (\<exists>x. map_of q ''endDate'' = Some (JStr x) \<and> \<not> z_datetime L x)"
  shows "queryParamsSchema_parse L q = None"
  using assms
  by (auto simp: queryParamsSchema_parse_def z_optional_def z_format_def z_string_def
      split: bind_splits option.splits)

text \<open>
  Claim C6, amended. For every event-listing request with a serial number whose
  \<open>startDate\<close> or \<open>endDate\<close> is a malformed date string, the device lookup by serial number
  is made first: when no device has the serial number the reply is NotFound (404);
  otherwise the request fails with the validation error, after that lookup and before the
  query for events.
\<close>

theorem malformed_dates_after_device_lookup:
  assumes "sn \<noteq> []"
    and "(\<exists>x. map_of q ''startDate'' = Some (JStr x) \<and> \<not> z_datetime L x) \<or>
         (\<exists>x. map_of q ''endDate'' = Some (JStr x) \<and> \<not> z_datetime L x)"
  shows "get_devices_events L (Some sn) q s =
           (if sn \<in> set (map device_serialNumber (devices s)) then Failed ZodError
            else Reply 404 (Message ''Can not find the device''),
            logq (DeviceFindFirst sn) s)"
proof -
  have p: "queryParamsSchema_parse L q = None"
    using assms(2) by (rule malformed_date_fails_parse)
  show ?thesis
  proof (cases "find (\<lambda>d. device_serialNumber d = sn) (devices s)")
    case None
    then have "sn \<notin> set (map device_serialNumber (devices s))"
      by (simp add: find_None_iff_serial)
    with None assms(1) show ?thesis
      by (simp add: get_devices_events_def truthy_def device_findFirst_def)
  next
    case (Some d)
    then have "sn \<in> set (map device_serialNumber (devices s))"
      using find_None_iff_serial [of sn "devices s"] by auto
    with Some assms(1) p show ?thesis
      by (simp add: get_devices_events_def truthy_def device_findFirst_def)
  qed
qed

theorem malformed_dates_after_device_lookup_witness:
  "get_devices_events example_lib (Some ''S1'') [(''endDate'', JStr ''2024-13-01'')]
       example_store =
     (Failed ZodError, logq (DeviceFindFirst ''S1'') example_store)
   \<and> get_devices_events example_lib (Some ''S9'') [(''startDate'', JStr ''yesterday'')]
       example_store =
     (Reply 404 (Message ''Can not find the device''),
      logq (DeviceFindFirst ''S9'') example_store)"
proof -
  have n1: "''S1'' \<noteq> []" and n2: "''S9'' \<noteq> []"
    by simp_all
  have e: "map_of [(''endDate'', JStr ''2024-13-01'')] ''endDate'' = Some (JStr ''2024-13-01'')
             \<and> \<not> z_datetime example_lib ''2024-13-01''"
    by code_simp
  have b: "map_of [(''startDate'', JStr ''yesterday'')] ''startDate'' = Some (JStr ''yesterday'')
             \<and> \<not> z_datetime example_lib ''yesterday''"
    by code_simp
  have m1: "''S1'' \<in> set (map device_serialNumber (devices example_store))"
    by code_simp
  have m2: "''S9'' \<notin> set (map device_serialNumber (devices example_store))"
    by code_simp
  from e have e': "(\<exists>x. map_of [(''endDate'', JStr ''2024-13-01'')] ''startDate'' = Some (JStr x) \<and>
                     \<not> z_datetime example_lib x) \<or>
                 (\<exists>x. map_of [(''endDate'', JStr ''2024-13-01'')] ''endDate'' = Some (JStr x) \<and>
                     \<not> z_datetime example_lib x)"
    by blast
  from b have b': "(\<exists>x. map_of [(''startDate'', JStr ''yesterday'')] ''startDate'' = Some (JStr x) \<and>
                     \<not> z_datetime example_lib x) \<or>
                 (\<exists>x. map_of [(''startDate'', JStr ''yesterday'')] ''endDate'' = Some (JStr x) \<and>
                     \<not> z_datetime example_lib x)"
    by blast
  show ?thesis
    using malformed_dates_after_device_lookup [OF n1 e', of example_store]
      malformed_dates_after_device_lookup [OF n2 b', of example_store]
    by (simp only: m1 m2 if_True if_False simp_thms)
qed

text \<open>
  The whole effect of the delete handler.
\<close>

lemma delete_devices_id_reply:
  "fst (delete_devices_id L usr i s) =
     (if i \<notin> set (map device_id (devices s)) then Failed (PrismaError RecordNotFound)
      else if onDelete_restrict L \<and> referenced i (userDevice_deleteMany (ju_id usr) i s)
      then Failed (PrismaError RequiredRelationViolation)
      else Reply 200 NoBody)"
proof (cases "find (\<lambda>d. device_id d = i) (devices s)")
  case None
  then have "i \<notin> set (map device_id (devices s))"
    by (simp add: find_None_iff_id)
  with None show ?thesis
    by (simp add: delete_devices_id_def userDevice_deleteMany_def device_delete_def logq_def)
next
  case (Some d)
  then have "i \<in> set (map device_id (devices s))"
    using find_None_iff_id [of i "devices s"] by auto
  with Some show ?thesis
    by (simp add: delete_devices_id_def userDevice_deleteMany_def device_delete_def logq_def
        Let_def)
qed

lemma delete_devices_id_store:
  "snd (delete_devices_id L usr i s) =
     s\<lparr>userDevices :=
         filter (\<lambda>l. \<not> (ud_userId l = ju_id usr \<and> ud_deviceId l = i)) (userDevices s),
       devices :=
         (if fst (delete_devices_id L usr i s) = Reply 200 NoBody
          then filter (\<lambda>d. device_id d \<noteq> i) (devices s) else devices s),
       queries := queries s @ [UserDeviceDeleteMany (ju_id usr) i, DeviceDelete i]\<rparr>"
  by (cases "find (\<lambda>d. device_id d = i) (devices s)")
    (simp_all add: delete_devices_id_def userDevice_deleteMany_def device_delete_def logq_def
      Let_def)

text \<open>
  Claim C1 as stated fails. Bob never linked the device \<open>S1\<close> (id 2), which is Alice's.
  His event listing for \<open>S1\<close> is answered 200 with the device's events, where a serial
  number of no device is answered 404. His delete of id 2 is not answered 404 either: it
  removes the device where the client does not restrict deletes and fails in the client
  where it does, as the delete of an id of no device fails in the client.
\<close>

theorem unlinked_user_reads_and_deletes_counterexample:
  "ju_id bob \<notin> set (map ud_userId (userDevices example_store))
   \<and> fst (serve example_lib example_env 7000
        (req (Some ''Bearer bob'') (GetDevicesEvents (Some ''S1'')) None []) example_store) =
      Reply 200 (EventsBody (deviceEvents example_store))
   \<and> fst (serve example_lib example_env 7000
        (req (Some ''Bearer bob'') (GetDevicesEvents (Some ''S2'')) None []) example_store) =
      Reply 404 (Message ''Can not find the device'')
   \<and> fst (serve (example_lib\<lparr>onDelete_restrict := False\<rparr>) example_env 7000
        (req (Some ''Bearer bob'') (DeleteDevicesId 2) None []) example_store) =
      Reply 200 NoBody
   \<and> devices (snd (serve (example_lib\<lparr>onDelete_restrict := False\<rparr>) example_env 7000
        (req (Some ''Bearer bob'') (DeleteDevicesId 2) None []) example_store)) = []
   \<and> fst (serve example_lib example_env 7000
        (req (Some ''Bearer bob'') (DeleteDevicesId 2) None []) example_store) =
      Failed (PrismaError RequiredRelationViolation)
   \<and> fst (serve example_lib example_env 7000
        (req (Some ''Bearer bob'') (DeleteDevicesId 9) None []) example_store) =
      Failed (PrismaError RecordNotFound)"
  by code_simp

text \<open>
  Claim C1, amended. The device-scoped user routes make no ownership check. The event
  listing answers the same whatever the ownership links are: NotFound (404) exactly when
  no device has the serial number, so an existing device is listed for any authenticated
  user. The delete by id never answers 404: an id of no device fails with the storage
  client's record-not-found error, and for a device that exists the handler removes the
  requester's links and the device row is deleted (200), whoever asks, unless the client
  refuses the delete because a link of another user or an event still references the
  device.
\<close>

theorem device_routes_ignore_ownership:
  "fst (get_devices_events L serialNumber q (s\<lparr>userDevices := links\<rparr>)) =
     fst (get_devices_events L serialNumber q s)
   \<and> (fst (get_devices_events L (Some sn) q s) = Reply 404 (Message ''Can not find the device'')
        \<longleftrightarrow> sn \<noteq> [] \<and> sn \<notin> set (map device_serialNumber (devices s)))
   \<and> fst (delete_devices_id L usr i s) =
       (if i \<notin> set (map device_id (devices s)) then Failed (PrismaError RecordNotFound)
        else if onDelete_restrict L \<and> referenced i (userDevice_deleteMany (ju_id usr) i s)
        then Failed (PrismaError RequiredRelationViolation)
        else Reply 200 NoBody)
   \<and> devices (snd (delete_devices_id L usr i s)) =
       (if fst (delete_devices_id L usr i s) = Reply 200 NoBody
        then filter (\<lambda>d. device_id d \<noteq> i) (devices s) else devices s)"
proof (intro conjI)
  show "fst (get_devices_events L serialNumber q (s\<lparr>userDevices := links\<rparr>)) =
     fst (get_devices_events L serialNumber q s)"
    by (simp add: get_devices_events_def device_findFirst_def deviceEvent_findMany_def logq_def
        split: option.splits prod.splits)
next
  show "fst (get_devices_events L (Some sn) q s) = Reply 404 (Message ''Can not find the device'')
        \<longleftrightarrow> sn \<noteq> [] \<and> sn \<notin> set (map device_serialNumber (devices s))"
    using find_None_iff_serial [of sn "devices s"]
    by (auto simp: get_devices_events_def device_findFirst_def deviceEvent_findMany_def
        logq_def truthy_def split: option.splits prod.splits)
next
  show "fst (delete_devices_id L usr i s) =
       (if i \<notin> set (map device_id (devices s)) then Failed (PrismaError RecordNotFound)
        else if onDelete_restrict L \<and> referenced i (userDevice_deleteMany (ju_id usr) i s)
        then Failed (PrismaError RequiredRelationViolation)
        else Reply 200 NoBody)"
    by (rule delete_devices_id_reply)
next
  show "devices (snd (delete_devices_id L usr i s)) =
       (if fst (delete_devices_id L usr i s) = Reply 200 NoBody
        then filter (\<lambda>d. device_id d \<noteq> i) (devices s) else devices s)"
    by (simp add: delete_devices_id_store)
qed

theorem device_routes_ignore_ownership_witness:
  "fst (get_devices_events example_lib (Some ''S1'') [] (example_store\<lparr>userDevices := []\<rparr>)) =
     Reply 200 (EventsBody (deviceEvents example_store))
   \<and> fst (delete_devices_id (example_lib\<lparr>onDelete_restrict := False\<rparr>) bob 2 example_store) =
     Reply 200 NoBody
   \<and> fst (delete_devices_id example_lib bob 2 example_store) =
     Failed (PrismaError RequiredRelationViolation)"
proof -
  have e: "fst (get_devices_events example_lib (Some ''S1'') [] example_store) =
             Reply 200 (EventsBody (deviceEvents example_store))"
    by code_simp
  have m: "(2 \<notin> set (map device_id (devices example_store))) = False"
    by code_simp
  have r1: "(onDelete_restrict (example_lib\<lparr>onDelete_restrict := False\<rparr>) \<and>
             referenced 2 (userDevice_deleteMany (ju_id bob) 2 example_store)) = False"
    by code_simp
  have r2: "(onDelete_restrict example_lib \<and>
             referenced 2 (userDevice_deleteMany (ju_id bob) 2 example_store)) = True"
    by code_simp
  note t = device_routes_ignore_ownership
    [where L = example_lib and serialNumber = "Some ''S1''" and q = "[]" and s = example_store
       and links = "[]" and sn = "''S1''" and usr = bob and i = 2]
  note t' = device_routes_ignore_ownership
    [where L = "example_lib\<lparr>onDelete_restrict := False\<rparr>" and serialNumber = "Some ''S1''"
       and q = "[]" and s = example_store and links = "[]" and sn = "''S1''" and usr = bob
       and i = 2]
  from t have a: "fst (get_devices_events example_lib (Some ''S1'') []
        (example_store\<lparr>userDevices := []\<rparr>)) =
      fst (get_devices_events example_lib (Some ''S1'') [] example_store)"
    by (rule conjunct1)
  from t have b: "fst (delete_devices_id example_lib bob 2 example_store) =
       (if 2 \<notin> set (map device_id (devices example_store))
        then Failed (PrismaError RecordNotFound)
        else if onDelete_restrict example_lib \<and>
                referenced 2 (userDevice_deleteMany (ju_id bob) 2 example_store)
        then Failed (PrismaError RequiredRelationViolation)
        else Reply 200 NoBody)"
    by blast
  from t' have c: "fst (delete_devices_id (example_lib\<lparr>onDelete_restrict := False\<rparr>) bob 2
        example_store) =
       (if 2 \<notin> set (map device_id (devices example_store))
        then Failed (PrismaError RecordNotFound)
        else if onDelete_restrict (example_lib\<lparr>onDelete_restrict := False\<rparr>) \<and>
                referenced 2 (userDevice_deleteMany (ju_id bob) 2 example_store)
        then Failed (PrismaError RequiredRelationViolation)
        else Reply 200 NoBody)"
    by blast
  show ?thesis
    by (intro conjI)
      (simp only: a e, simp only: c m r1 if_False, simp only: b m r2 if_False if_True)
qed



end
